theory Spec2Isabelle
  imports
    Main
    "HOL-Library.Signed_Division"
    "HOL-Library.Char_ord"
    "HOL-Library.List_Lexorder"
    "HOL-Library.Sublist"
begin

section \<open>JavaScript values and string operations used by the scripts\<close>

text \<open>
  The scripts read Notion pages with optional chaining. A chain such as
  \<^verbatim>\<open>props['Location']?.rich_text?.[0]?.plain_text\<close> yields \<^verbatim>\<open>undefined\<close> as soon as one
  link is absent; the model writes \<open>None\<close> for \<^verbatim>\<open>undefined\<close> and \<^verbatim>\<open>null\<close> alike, since every
  use in the source only tests the result for truthiness.
\<close>

text \<open>Truthiness of a string-or-undefined: the empty string is falsy.\<close>

definition truthy :: "string option \<Rightarrow> bool" where
  "truthy v = (case v of None \<Rightarrow> False | Some s \<Rightarrow> s \<noteq> [])"

text \<open>A string-or-undefined as a condition sees: the string when it is truthy.\<close>

definition present :: "string option \<Rightarrow> string option" where
  "present v = (case v of None \<Rightarrow> None | Some s \<Rightarrow> if s = [] then None else Some s)"

text \<open>\<^verbatim>\<open>v || d\<close> on a string-or-undefined \<open>v\<close> with a string default \<open>d\<close>.\<close>

definition or_default :: "string option \<Rightarrow> string \<Rightarrow> string" where
  "or_default v d = (case v of None \<Rightarrow> d | Some s \<Rightarrow> if s = [] then d else s)"

text \<open>\<^verbatim>\<open>a || b\<close> where both sides may be undefined.\<close>

definition or_undefined :: "string option \<Rightarrow> string option \<Rightarrow> string option" where
  "or_undefined a b = (if truthy a then a else b)"

text \<open>\<^verbatim>\<open>s.includes(sub)\<close>: \<open>sub\<close> occurs in \<open>s\<close> as a contiguous run.\<close>

fun starts_with :: "string \<Rightarrow> string \<Rightarrow> bool" where
  "starts_with s [] = True"
| "starts_with [] (c # cs) = False"
| "starts_with (d # ds) (c # cs) = (d = c \<and> starts_with ds cs)"

fun includes_str :: "string \<Rightarrow> string \<Rightarrow> bool" where
  "includes_str [] sub = (sub = [])"
| "includes_str (c # cs) sub = (starts_with (c # cs) sub \<or> includes_str cs sub)"

text \<open>\<^verbatim>\<open>s.split('T')[0]\<close>: the part of \<open>s\<close> before the first \<open>T\<close> (all of \<open>s\<close> without one).\<close>

definition split_T_0 :: "string \<Rightarrow> string" where
  "split_T_0 s = takeWhile (\<lambda>c. c \<noteq> CHR ''T'') s"

text \<open>\<^verbatim>\<open>xs.join(sep)\<close> on an array of strings.\<close>

fun join :: "string \<Rightarrow> string list \<Rightarrow> string" where
  "join sep [] = []"
| "join sep [x] = x"
| "join sep (x # y # ys) = x @ sep @ join sep (y # ys)"

text \<open>\<^verbatim>\<open>xs[i]\<close> on an array: \<^verbatim>\<open>undefined\<close> outside \<open>0 .. length - 1\<close>.\<close>

definition js_index :: "'a list \<Rightarrow> int \<Rightarrow> 'a option" where
  "js_index xs i = (if 0 \<le> i \<and> i < int (length xs) then Some (xs ! nat i) else None)"

text \<open>Decimal rendering of an integer, as a template literal renders a whole number.\<close>

definition digit_char :: "nat \<Rightarrow> char" where
  "digit_char n = ''0123456789'' ! (n mod 10)"

fun nat_to_string :: "nat \<Rightarrow> string" where
  "nat_to_string n =
     (if n < 10 then [digit_char n] else nat_to_string (n div 10) @ [digit_char n])"

definition int_to_string :: "int \<Rightarrow> string" where
  "int_to_string i = (if i < 0 then CHR ''-'' # nat_to_string (nat (- i)) else nat_to_string (nat i))"

text \<open>Left-padding with zeros to a width, as the ISO date format does.\<close>

definition pad :: "nat \<Rightarrow> nat \<Rightarrow> string" where
  "pad w n = replicate (w - length (nat_to_string n)) CHR ''0'' @ nat_to_string n"

section \<open>The Date object\<close>

text \<open>
  A Date holds a time value, the milliseconds since the epoch in UTC, or NaN (an
  Invalid Date), written \<open>None\<close>. The day arithmetic is the one of ECMA-262, 21.4.1.
\<close>

definition msPerDay :: int where
  "msPerDay = 86400000"

definition TimeClip :: "int \<Rightarrow> int option" where
  "TimeClip t = (if \<bar>t\<bar> \<le> 8640000000000000 then Some t else None)"

definition Day :: "int \<Rightarrow> int" where
  "Day t = t div msPerDay"

definition TimeWithinDay :: "int \<Rightarrow> int" where
  "TimeWithinDay t = t mod msPerDay"

definition DaysInYear :: "int \<Rightarrow> int" where
  "DaysInYear y =
     (if y mod 4 \<noteq> 0 then 365 else if y mod 100 \<noteq> 0 then 366
      else if y mod 400 \<noteq> 0 then 365 else 366)"

definition DayFromYear :: "int \<Rightarrow> int" where
  "DayFromYear y =
     365 * (y - 1970) + (y - 1969) div 4 - (y - 1901) div 100 + (y - 1601) div 400"

text \<open>
  The year of a day number is the largest \<open>y\<close> with \<open>DayFromYear y \<le> d\<close>. It is at
  most one away from the estimate by the mean year length of 146097/400 days.
\<close>

definition YearFromDay :: "int \<Rightarrow> int" where
  "YearFromDay d =
     (let y = 1970 + (400 * d) div 146097
      in if DayFromYear (y + 1) \<le> d then y + 1
         else if DayFromYear y \<le> d then y else y - 1)"

definition YearFromTime :: "int \<Rightarrow> int" where
  "YearFromTime t = YearFromDay (Day t)"

definition DayWithinYear :: "int \<Rightarrow> int" where
  "DayWithinYear t = Day t - DayFromYear (YearFromTime t)"

definition InLeapYear :: "int \<Rightarrow> int" where
  "InLeapYear t = (if DaysInYear (YearFromTime t) = 366 then 1 else 0)"

text \<open>Day within the year on which month \<open>m\<close> (0 = January) starts; \<open>l\<close> is 1 in a leap year.\<close>

definition month_start :: "int \<Rightarrow> int \<Rightarrow> int" where
  "month_start l m =
     (if m = 0 then 0 else if m = 1 then 31 else if m = 2 then 59 + l
      else if m = 3 then 90 + l else if m = 4 then 120 + l else if m = 5 then 151 + l
      else if m = 6 then 181 + l else if m = 7 then 212 + l else if m = 8 then 243 + l
      else if m = 9 then 273 + l else if m = 10 then 304 + l else 334 + l)"

definition MonthFromTime :: "int \<Rightarrow> int" where
  "MonthFromTime t =
     (let d = DayWithinYear t; l = InLeapYear t
      in if d < 31 then 0 else if d < 59 + l then 1 else if d < 90 + l then 2
         else if d < 120 + l then 3 else if d < 151 + l then 4 else if d < 181 + l then 5
         else if d < 212 + l then 6 else if d < 243 + l then 7 else if d < 273 + l then 8
         else if d < 304 + l then 9 else if d < 334 + l then 10 else 11)"

definition DateFromTime :: "int \<Rightarrow> int" where
  "DateFromTime t = DayWithinYear t - month_start (InLeapYear t) (MonthFromTime t) + 1"

text \<open>
  \<open>MakeDay year month date\<close>: the day number of the first of the month (months beyond
  0..11 carry into the year) plus \<open>date - 1\<close>.
\<close>

definition MakeDay :: "int \<Rightarrow> int \<Rightarrow> int \<Rightarrow> int" where
  "MakeDay year month dt =
     (let ym = year + month div 12; mn = month mod 12
      in DayFromYear ym + month_start (if DaysInYear ym = 366 then 1 else 0) mn + dt - 1)"

definition MakeDate :: "int \<Rightarrow> int \<Rightarrow> int" where
  "MakeDate day time = day * msPerDay + time"

text \<open>
  What the host decides: the local time zone adjustment (the offset of local time from
  UTC in milliseconds, asked at a UTC time and at a local time), and \<^verbatim>\<open>Date.parse\<close> on
  every string that is not a calendar date \<^verbatim>\<open>YYYY-MM-DD\<close>.
\<close>

record host =
  tza_utc :: "int \<Rightarrow> int"
  tza_local :: "int \<Rightarrow> int"
  parse_other :: "string \<Rightarrow> int option"

definition LocalTime :: "host \<Rightarrow> int \<Rightarrow> int" where
  "LocalTime h t = t + tza_utc h t"

definition UTC :: "host \<Rightarrow> int \<Rightarrow> int" where
  "UTC h t = t - tza_local h t"

text \<open>Reading a run of decimal digits; \<open>None\<close> when a character is not a digit.\<close>

definition digit_val :: "char \<Rightarrow> nat option" where
  "digit_val c =
     (let n = of_char c :: nat in if 48 \<le> n \<and> n \<le> 57 then Some (n - 48) else None)"

fun read_digits :: "nat \<Rightarrow> string \<Rightarrow> nat option" where
  "read_digits acc [] = Some acc"
| "read_digits acc (c # cs) =
     (case digit_val c of None \<Rightarrow> None | Some v \<Rightarrow> read_digits (10 * acc + v) cs)"

definition DaysInMonth :: "int \<Rightarrow> int \<Rightarrow> int" where
  "DaysInMonth y m =
     (if m = 2 then (if DaysInYear y = 366 then 29 else 28)
      else if m = 4 \<or> m = 6 \<or> m = 9 \<or> m = 11 then 30 else 31)"

text \<open>
  The date-only form \<^verbatim>\<open>YYYY-MM-DD\<close> of the date-time string format, which is read as
  UTC midnight: the day number of a calendar date that exists.
\<close>

definition parse_iso_date :: "string \<Rightarrow> int option" where
  "parse_iso_date s =
     (if length s = 10 \<and> s ! 4 = CHR ''-'' \<and> s ! 7 = CHR ''-'' then
        (case (read_digits 0 (take 4 s), read_digits 0 (take 2 (drop 5 s)),
               read_digits 0 (drop 8 s)) of
           (Some y, Some m, Some d) \<Rightarrow>
             if 1 \<le> m \<and> m \<le> 12 \<and> 1 \<le> d \<and> int d \<le> DaysInMonth (int y) (int m)
             then Some (MakeDay (int y) (int m - 1) (int d)) else None
         | _ \<Rightarrow> None)
      else None)"

definition Date_parse :: "host \<Rightarrow> string \<Rightarrow> int option" where
  "Date_parse h s =
     (case parse_iso_date s of Some d \<Rightarrow> Some (MakeDate d 0) | None \<Rightarrow> parse_other h s)"

text \<open>\<^verbatim>\<open>d.getDate()\<close> and \<^verbatim>\<open>d.setDate(dt)\<close> work in local time.\<close>

definition getDate :: "host \<Rightarrow> int \<Rightarrow> int" where
  "getDate h t = DateFromTime (LocalTime h t)"

definition setDate :: "host \<Rightarrow> int \<Rightarrow> int \<Rightarrow> int option" where
  "setDate h t dt =
     (let lt = LocalTime h t;
          newDate = MakeDate (MakeDay (YearFromTime lt) (MonthFromTime lt) dt) (TimeWithinDay lt)
      in TimeClip (UTC h newDate))"

text \<open>\<^verbatim>\<open>d.toISOString()\<close> of a valid time value, in UTC.\<close>

definition year_string :: "int \<Rightarrow> string" where
  "year_string y =
     (if 0 \<le> y \<and> y \<le> 9999 then pad 4 (nat y)
      else (if y < 0 then CHR ''-'' else CHR ''+'') # pad 6 (nat \<bar>y\<bar>))"

definition toISOString :: "int \<Rightarrow> string" where
  "toISOString t =
     (let w = TimeWithinDay t
      in year_string (YearFromTime t) @ ''-'' @ pad 2 (nat (MonthFromTime t + 1)) @ ''-''
         @ pad 2 (nat (DateFromTime t)) @ ''T'' @ pad 2 (nat (w div 3600000)) @ '':''
         @ pad 2 (nat (w div 60000 mod 60)) @ '':'' @ pad 2 (nat (w div 1000 mod 60)) @ ''.''
         @ pad 3 (nat (w mod 1000)) @ ''Z'')"

text \<open>Comparing two Dates with \<^verbatim>\<open><\<close>: false as soon as one of them is invalid.\<close>

definition date_less :: "int option \<Rightarrow> int option \<Rightarrow> bool" where
  "date_less a b = (case (a, b) of (Some x, Some y) \<Rightarrow> x < y | _ \<Rightarrow> False)"

section \<open>Notion pages\<close>

text \<open>
  A page as the scripts read it. Each field is what one optional chain of the source
  yields: \<open>Event_Name\<close>, \<open>Description\<close> and \<open>Location\<close> are the \<^verbatim>\<open>plain_text\<close> of the
  segments of the property's \<^verbatim>\<open>title\<close> or \<^verbatim>\<open>rich_text\<close> array (\<open>None\<close> without the
  property), \<open>Date_Time\<close> and \<open>Last_Nagged\<close> are the property's \<^verbatim>\<open>date\<close> object (\<open>None\<close>
  without the property or with a null date), \<open>Nag_Count\<close> is the property's
  \<^verbatim>\<open>number\<close>. \<open>Last_edited_time\<close> is the value of \<^verbatim>\<open>props['Last edited time']\<close> itself:
  the source hands it to \<^verbatim>\<open>new Date\<close> without unwrapping it, so it is a value of any
  kind; \<open>Obj\<close> is an object such as the property object of a Notion page.
\<close>

record date_value =
  date_start :: "string option"
  date_end :: "string option"

datatype js_value = Undefined | Null | Str string | Num int | Obj

record page =
  page_id :: string
  Event_Name :: "string list option"
  Description :: "string list option"
  Location :: "string list option"
  Date_Time :: "date_value option"
  Nag_Count :: "int option"
  Last_Nagged :: "date_value option"
  Last_edited_time :: js_value

text \<open>\<^verbatim>\<open>?.rich_text?.[0]?.plain_text\<close> and \<^verbatim>\<open>?.title?.[0]?.plain_text\<close>.\<close>

definition first_plain_text :: "string list option \<Rightarrow> string option" where
  "first_plain_text v = (case v of None \<Rightarrow> None | Some [] \<Rightarrow> None | Some (x # xs) \<Rightarrow> Some x)"

text \<open>\<^verbatim>\<open>?.date?.start\<close> and \<^verbatim>\<open>?.date?.end\<close>.\<close>

definition start_of :: "date_value option \<Rightarrow> string option" where
  "start_of v = (case v of None \<Rightarrow> None | Some d \<Rightarrow> date_start d)"

definition end_of :: "date_value option \<Rightarrow> string option" where
  "end_of v = (case v of None \<Rightarrow> None | Some d \<Rightarrow> date_end d)"

text \<open>\<^verbatim>\<open>?.number || 0\<close>.\<close>

definition number_or_0 :: "int option \<Rightarrow> int" where
  "number_or_0 v = (case v of None \<Rightarrow> 0 | Some n \<Rightarrow> if n = 0 then 0 else n)"

text \<open>
  \<^verbatim>\<open>new Date(v)\<close>: a string is parsed, a number is clipped to the range of time
  values, \<^verbatim>\<open>null\<close> counts as 0, \<^verbatim>\<open>undefined\<close> gives an Invalid Date, and an object without
  a primitive value of its own is parsed through its string \<^verbatim>\<open>[object Object]\<close>.
\<close>

fun new_Date :: "host \<Rightarrow> js_value \<Rightarrow> int option" where
  "new_Date h Undefined = None"
| "new_Date h Null = TimeClip 0"
| "new_Date h (Str s) = Date_parse h s"
| "new_Date h (Num n) = TimeClip n"
| "new_Date h Obj = Date_parse h ''[object Object]''"

section \<open>The nag script\<close>

subsection \<open>Field completeness\<close>

text \<open>
  \<^verbatim>\<open>start?.includes('T')\<close> is \<^verbatim>\<open>undefined\<close> without a start, which \<^verbatim>\<open>!\<close> treats as false.
\<close>

definition hasTime_of :: "page \<Rightarrow> bool" where
  "hasTime_of event =
     (case start_of (Date_Time event) of None \<Rightarrow> False | Some s \<Rightarrow> includes_str s ''T'')"

definition isMissingInfo :: "page \<Rightarrow> bool" where
  "isMissingInfo event =
     (let hasTime = hasTime_of event;
          hasLocation = first_plain_text (Location event);
          hasDescription = first_plain_text (Description event)
      in \<not> hasTime \<or> \<not> truthy hasLocation \<or> \<not> truthy hasDescription)"

definition getMissingFields :: "page \<Rightarrow> string list" where
  "getMissingFields event =
     (let missing = [];
          hasTime = hasTime_of event;
          hasLocation = first_plain_text (Location event);
          hasDescription = first_plain_text (Description event);
          missing = (if \<not> hasTime then missing @ [''time''] else missing);
          missing = (if \<not> truthy hasLocation then missing @ [''location''] else missing);
          missing = (if \<not> truthy hasDescription then missing @ [''description''] else missing)
      in missing)"

subsection \<open>Rotation\<close>

definition rotation :: "string list" where
  "rotation = [''winter'', ''summer'', ''rav'']"

text \<open>The remainder \<^verbatim>\<open>%\<close> takes the sign of the dividend, as \<open>smod\<close> does.\<close>

definition getNextPerson :: "int \<Rightarrow> string option" where
  "getNextPerson nagCount = js_index rotation (nagCount smod 3)"

subsection \<open>The decision\<close>

datatype reason = max_attempts | first_nag | too_soon | follow_up | unknown_state

record decision =
  should :: bool
  reason :: reason

text \<open>\<open>now\<close> is the reading of \<^verbatim>\<open>Date.now()\<close>.\<close>

definition shouldNagNow :: "host \<Rightarrow> int \<Rightarrow> page \<Rightarrow> decision" where
  "shouldNagNow h now event =
     (let nagCount = number_or_0 (Nag_Count event);
          lastNagged = start_of (Last_Nagged event)
      in if nagCount \<ge> 5 then \<lparr>should = False, reason = max_attempts\<rparr>
         else if nagCount = 0 then
           (let lastEdited = new_Date h (Last_edited_time event);
                hourAgo = TimeClip (now - 60 * 60 * 1000)
            in if date_less lastEdited hourAgo then \<lparr>should = True, reason = first_nag\<rparr>
               else \<lparr>should = False, reason = too_soon\<rparr>)
         else
           (case present lastNagged of
              Some s \<Rightarrow>
                (let lastNagTime = Date_parse h s;
                     twoHoursAgo = TimeClip (now - 2 * 60 * 60 * 1000)
                 in if date_less lastNagTime twoHoursAgo
                    then \<lparr>should = True, reason = follow_up\<rparr>
                    else \<lparr>should = False, reason = too_soon\<rparr>)
            | None \<Rightarrow> \<lparr>should = True, reason = unknown_state\<rparr>))"

subsection \<open>The message\<close>

text \<open>The four emoji of the template, as the bytes of the source file.\<close>

definition herb :: string where
  "herb = [CHR 0xF0, CHR 0x9F, CHR 0x8C, CHR 0xBF]"

definition blossom :: string where
  "blossom = [CHR 0xF0, CHR 0x9F, CHR 0x8C, CHR 0xB8]"

definition clover :: string where
  "clover = [CHR 0xF0, CHR 0x9F, CHR 0x8D, CHR 0x80]"

definition calendar_sign :: string where
  "calendar_sign = [CHR 0xF0, CHR 0x9F, CHR 0x93, CHR 0x85]"

definition nl :: string where
  "nl = [CHR 0x0A]"

definition dont :: string where
  "dont = ''don'' @ [CHR 0x27] @ ''t''"

definition greeting_of :: "string option \<Rightarrow> string" where
  "greeting_of person =
     (if person = Some ''winter'' then herb @ '' Hey Winter!''
      else if person = Some ''summer'' then blossom @ '' Hey Summer!''
      else clover @ '' Hey Rav!'')"

definition buildNagMessage :: "page \<Rightarrow> string option \<Rightarrow> string" where
  "buildNagMessage event person =
     (let eventName = or_default (first_plain_text (Event_Name event)) ''Untitled Event'';
          dateStr = or_default (start_of (Date_Time event)) ''Unknown date'';
          missing = getMissingFields event;
          nagCount = number_or_0 (Nag_Count event) + 1;
          greeting = greeting_of person
      in greeting @ nl @ nl
         @ ''I need some info about this event:'' @ nl
         @ calendar_sign @ '' **'' @ eventName @ ''** ('' @ dateStr @ '')'' @ nl @ nl
         @ ''Missing: '' @ join '', '' missing @ nl @ nl
         @ ''Can you fill in the missing details in Notion? Or reply '' @ [CHR 0x22] @ dont
         @ '' know'' @ [CHR 0x22] @ '' if you '' @ dont @ '' have this info.'' @ nl @ nl
         @ ''(Attempt '' @ int_to_string nagCount @ ''/5)'')"

section \<open>The collaborators\<close>

text \<open>
  The scripts act on the world only through requests to Notion, Slack and Google
  Calendar. A run of a script is modelled by the requests it issues, in order, and by
  the error that escaped to the top level, if any (\<^verbatim>\<open>Fatal error\<close>, exit status 1). What
  each request answers is decided outside the scripts and is an input of the model.
\<close>

datatype error = Error string

fun message :: "error \<Rightarrow> string" where
  "message (Error m) = m"

text \<open>The values of a \<^verbatim>\<open>properties\<close> object of \<^verbatim>\<open>notion.pages.update\<close>, by their shape.\<close>

datatype prop_value =
    Number int
  | Select string
  | Rich_Text "string option"
  | Plain_String string
  | Plain_Number int

record event_time =
  dateTime :: "string option"
  timeZone :: "string option"
  date :: "string option"

record calendar_event =
  summary :: string
  description :: string
  location :: string
  event_start :: event_time
  event_end :: event_time

datatype request =
    chat_postMessage "string option" string
  | pages_update string "(string \<times> prop_value) list"
  | events_insert string calendar_event
  | acl_insert string string string

text \<open>What Slack answers: a JSON result with its \<^verbatim>\<open>ok\<close> and \<^verbatim>\<open>error\<close>, or a failed request.\<close>

datatype slack_answer = Result bool string | Request_Failed string

text \<open>
  \<open>SLACK_USER_WINTER\<close>, \<open>SLACK_USER_SUMMER\<close> and \<open>SLACK_USER_RAV\<close> are the environment
  variables behind \<^verbatim>\<open>USERS\<close>. \<open>date_now\<close> is the clock read by \<^verbatim>\<open>Date.now()\<close> while the
  page with the given id is decided on, \<open>date_new\<close> the clock read by \<^verbatim>\<open>new Date()\<close> when
  the update of that page is built. The other fields are the answers of the services:
  for \<open>notion_pages_update\<close>, \<open>None\<close> is an update that went through.
\<close>

record services =
  SLACK_USER_WINTER :: "string option"
  SLACK_USER_SUMMER :: "string option"
  SLACK_USER_RAV :: "string option"
  date_now :: "string \<Rightarrow> int"
  date_new :: "string \<Rightarrow> int"
  slack_answers :: "string option \<Rightarrow> string \<Rightarrow> slack_answer"
  notion_pages_update :: "string \<Rightarrow> (string \<times> prop_value) list \<Rightarrow> error option"
  notion_query_nag :: "error + page list"
  notion_query_approved :: "error + page list"
  calendar_events_insert :: "string \<Rightarrow> calendar_event \<Rightarrow> error + string"
  calendar_acl_insert :: "error option"

text \<open>A run: the requests issued and the error that escaped, if one did.\<close>

type_synonym run = "request list \<times> error option"

subsection \<open>The nag orchestrator\<close>

definition USERS :: "services \<Rightarrow> string option \<Rightarrow> string option" where
  "USERS sv person =
     (if person = Some ''winter'' then SLACK_USER_WINTER sv
      else if person = Some ''summer'' then SLACK_USER_SUMMER sv
      else if person = Some ''rav'' then SLACK_USER_RAV sv
      else None)"

definition sendSlackDM :: "services \<Rightarrow> string option \<Rightarrow> string \<Rightarrow> error + unit" where
  "sendSlackDM sv userId msg =
     (case slack_answers sv userId msg of
        Result ok err \<Rightarrow> if ok then Inr () else Inl (Error err)
      | Request_Failed m \<Rightarrow> Inl (Error m))"

text \<open>The \<^verbatim>\<open>properties\<close> that \<^verbatim>\<open>updateNagStatus\<close> sends; \<open>t\<close> is the clock of \<^verbatim>\<open>new Date()\<close>.\<close>

definition updateNagStatus :: "int \<Rightarrow> string option \<Rightarrow> int \<Rightarrow> (string \<times> prop_value) list" where
  "updateNagStatus t person nagCount =
     [(''Nag Count'', Number nagCount),
      (''date:Last Nagged:start'', Plain_String (toISOString t)),
      (''date:Last Nagged:is_datetime'', Plain_Number 1),
      (''Nag Status'', Select ''Pending''),
      (''Asked Who'', Rich_Text person)]"

text \<open>
  The body of the loop of \<^verbatim>\<open>main\<close> for one event. The update to \<^verbatim>\<open>Gave Up\<close> is awaited
  outside the inner \<^verbatim>\<open>try\<close>, so its failure escapes; the send and the update of the nag
  fields are inside it, so theirs are logged and the loop goes on.
\<close>

definition nag_event :: "host \<Rightarrow> services \<Rightarrow> page \<Rightarrow> run" where
  "nag_event h sv event =
     (let shouldNag = shouldNagNow h (date_now sv (page_id event)) event
      in if \<not> should shouldNag then
           (if reason shouldNag = max_attempts then
              (let props = [(''Nag Status'', Select ''Gave Up'')]
               in ([pages_update (page_id event) props],
                   notion_pages_update sv (page_id event) props))
            else ([], None))
         else
           (let nagCount = number_or_0 (Nag_Count event);
                person = getNextPerson nagCount;
                userId = USERS sv person;
                msg = buildNagMessage event person
            in case sendSlackDM sv userId msg of
                 Inl e \<Rightarrow> ([chat_postMessage userId msg], None)
               | Inr u \<Rightarrow>
                   ([chat_postMessage userId msg,
                     pages_update (page_id event)
                       (updateNagStatus (date_new sv (page_id event)) person (nagCount + 1))],
                    None)))"

fun nag_loop :: "host \<Rightarrow> services \<Rightarrow> page list \<Rightarrow> run" where
  "nag_loop h sv [] = ([], None)"
| "nag_loop h sv (event # events) =
     (case nag_event h sv event of
        (rs, Some e) \<Rightarrow> (rs, Some e)
      | (rs, None) \<Rightarrow> (case nag_loop h sv events of (rs', r) \<Rightarrow> (rs @ rs', r)))"

definition queryEventsNeedingNag :: "services \<Rightarrow> error + page list" where
  "queryEventsNeedingNag sv =
     (case notion_query_nag sv of
        Inl e \<Rightarrow> Inl e
      | Inr results \<Rightarrow> Inr (filter isMissingInfo results))"

definition main_nag :: "host \<Rightarrow> services \<Rightarrow> run" where
  "main_nag h sv =
     (case queryEventsNeedingNag sv of
        Inl e \<Rightarrow> ([], Some e)
      | Inr events \<Rightarrow> nag_loop h sv events)"

section \<open>The calendar sync scripts\<close>

text \<open>
  Three scripts sync approved pages to a calendar. \<^verbatim>\<open>sync-calendar.js\<close> tells timed from
  all-day events; the two earlier variants (the second script of \<^verbatim>\<open>part_000\<close>, and
  \<^verbatim>\<open>part_001\<close>) always send \<^verbatim>\<open>dateTime\<close> values.
\<close>

definition time_zone :: string where
  "time_zone = ''America/Los_Angeles''"

definition CALENDAR_ID :: string where
  "CALENDAR_ID = ''rav@threeleafclover.us''"

definition CALENDAR_ID_part_000 :: string where
  "CALENDAR_ID_part_000 =
     ''c_9db0968d06112a987a320dea71da8f2182441f43fc605b714974eb47f6591cbf@group.calendar.google.com''"

text \<open>\<^verbatim>\<open>{ dateTime: v, timeZone: 'America/Los_Angeles' }\<close> and \<^verbatim>\<open>{ date: v }\<close>.\<close>

definition timed :: "string option \<Rightarrow> event_time" where
  "timed v = \<lparr>dateTime = v, timeZone = Some time_zone, date = None\<rparr>"

definition all_day :: "string \<Rightarrow> event_time" where
  "all_day v = \<lparr>dateTime = None, timeZone = None, date = Some v\<rparr>"

subsection \<open>\<^verbatim>\<open>sync-calendar.js\<close>\<close>

text \<open>
  The end of a single all-day event: \<^verbatim>\<open>new Date(start)\<close>, \<^verbatim>\<open>setDate(getDate() + 1)\<close>, and
  the date part of \<^verbatim>\<open>toISOString()\<close>, which throws a RangeError on an Invalid Date.
\<close>

definition nextDay :: "host \<Rightarrow> string \<Rightarrow> error + string" where
  "nextDay h start =
     (case Date_parse h start of
        None \<Rightarrow> Inl (Error ''Invalid time value'')
      | Some t \<Rightarrow>
          (case setDate h t (getDate h t + 1) of
             None \<Rightarrow> Inl (Error ''Invalid time value'')
           | Some t' \<Rightarrow> Inr (split_T_0 (toISOString t'))))"

text \<open>The request body that \<^verbatim>\<open>createCalendarEvent\<close> builds, or the error it throws before.\<close>

definition createCalendarEvent_body :: "host \<Rightarrow> page \<Rightarrow> error + calendar_event" where
  "createCalendarEvent_body h notionPage =
     (let title = or_default (first_plain_text (Event_Name notionPage)) ''Untitled Event'';
          descr = or_default (first_plain_text (Description notionPage)) [];
          loc = or_default (first_plain_text (Location notionPage)) [];
          dateInfo = Date_Time notionPage
      in case present (start_of dateInfo) of
           None \<Rightarrow> Inl (Error ''Date & Time is required'')
         | Some start \<Rightarrow>
             (let hasTime = includes_str start ''T''
              in if hasTime then
                   Inr \<lparr>summary = title, description = descr, location = loc,
                        event_start = timed (Some start),
                        event_end = timed (Some (or_default (end_of dateInfo) start))\<rparr>
                 else
                   (case present (end_of dateInfo) of
                      Some e \<Rightarrow>
                        Inr \<lparr>summary = title, description = descr, location = loc,
                             event_start = all_day (split_T_0 start),
                             event_end = all_day (split_T_0 e)\<rparr>
                    | None \<Rightarrow>
                        (case nextDay h start of
                           Inl err \<Rightarrow> Inl err
                         | Inr d \<Rightarrow>
                             Inr \<lparr>summary = title, description = descr, location = loc,
                                  event_start = all_day (split_T_0 start),
                                  event_end = all_day d\<rparr>))))"

text \<open>The whole of \<^verbatim>\<open>createCalendarEvent\<close>: the body, then the insert and its answer.\<close>

definition createCalendarEvent :: "host \<Rightarrow> services \<Rightarrow> page \<Rightarrow> request list \<times> (error + string)" where
  "createCalendarEvent h sv notionPage =
     (case createCalendarEvent_body h notionPage of
        Inl e \<Rightarrow> ([], Inl e)
      | Inr event \<Rightarrow>
          ([events_insert CALENDAR_ID event], calendar_events_insert sv CALENDAR_ID event))"

subsection \<open>The variants without the all-day branch\<close>

definition createCalendarEvent_timed_body :: "page \<Rightarrow> calendar_event" where
  "createCalendarEvent_timed_body notionPage =
     (let title = or_default (first_plain_text (Event_Name notionPage)) ''Untitled Event'';
          descr = or_default (first_plain_text (Description notionPage)) [];
          loc = or_default (first_plain_text (Location notionPage)) [];
          startTime = start_of (Date_Time notionPage);
          endTime = end_of (Date_Time notionPage)
      in \<lparr>summary = title, description = descr, location = loc,
          event_start = timed startTime,
          event_end = timed (or_undefined endTime startTime)\<rparr>)"

definition createCalendarEvent_part_000 :: "services \<Rightarrow> page \<Rightarrow> request list \<times> (error + string)" where
  "createCalendarEvent_part_000 sv notionPage =
     (let event = createCalendarEvent_timed_body notionPage
      in ([events_insert CALENDAR_ID_part_000 event],
          calendar_events_insert sv CALENDAR_ID_part_000 event))"

definition createCalendarEvent_part_001 :: "services \<Rightarrow> page \<Rightarrow> request list \<times> (error + string)" where
  "createCalendarEvent_part_001 sv notionPage =
     (let event = createCalendarEvent_timed_body notionPage
      in ([events_insert ''primary'' event], calendar_events_insert sv ''primary'' event))"

subsection \<open>Writing back, and the loop of \<^verbatim>\<open>main\<close>\<close>

text \<open>
  The \<^verbatim>\<open>properties\<close> of \<^verbatim>\<open>updateNotionEvent\<close>; \<open>synced\<close> is the wording of the note, which
  differs between the scripts, and \<open>t\<close> the clock of \<^verbatim>\<open>new Date()\<close>.
\<close>

definition updateNotionEvent :: "string \<Rightarrow> int \<Rightarrow> string \<Rightarrow> (string \<times> prop_value) list" where
  "updateNotionEvent synced t calendarEventId =
     [(''Calendar ID'', Rich_Text (Some calendarEventId)),
      (''Status'', Select ''Scheduled''),
      (''Notes'', Rich_Text (Some (synced @ toISOString t)))]"

definition error_note :: "error \<Rightarrow> (string \<times> prop_value) list" where
  "error_note e = [(''Notes'', Rich_Text (Some (''Error syncing: '' @ message e)))]"

text \<open>
  The \<^verbatim>\<open>catch\<close> of the loop: the error note is awaited with nothing around it, so a
  failure of that update escapes the loop.
\<close>

definition catch_sync :: "services \<Rightarrow> page \<Rightarrow> request list \<Rightarrow> error \<Rightarrow> run" where
  "catch_sync sv event rs e =
     (rs @ [pages_update (page_id event) (error_note e)],
      notion_pages_update sv (page_id event) (error_note e))"

text \<open>
  The body of the loop for one event; \<open>create\<close> is the script's \<^verbatim>\<open>createCalendarEvent\<close>.
\<close>

definition sync_event ::
  "services \<Rightarrow> (page \<Rightarrow> request list \<times> (error + string)) \<Rightarrow> string \<Rightarrow> page \<Rightarrow> run" where
  "sync_event sv create synced event =
     (case create event of
        (rs, Inl e) \<Rightarrow> catch_sync sv event rs e
      | (rs, Inr calendarEventId) \<Rightarrow>
          (let props = updateNotionEvent synced (date_new sv (page_id event)) calendarEventId;
               rs' = rs @ [pages_update (page_id event) props]
           in case notion_pages_update sv (page_id event) props of
                None \<Rightarrow> (rs', None)
              | Some e \<Rightarrow> catch_sync sv event rs' e))"

fun sync_loop ::
  "services \<Rightarrow> (page \<Rightarrow> request list \<times> (error + string)) \<Rightarrow> string \<Rightarrow> page list \<Rightarrow> run" where
  "sync_loop sv create synced [] = ([], None)"
| "sync_loop sv create synced (event # events) =
     (case sync_event sv create synced event of
        (rs, Some e) \<Rightarrow> (rs, Some e)
      | (rs, None) \<Rightarrow>
          (case sync_loop sv create synced events of (rs', r) \<Rightarrow> (rs @ rs', r)))"

definition main_sync ::
  "services \<Rightarrow> (page \<Rightarrow> request list \<times> (error + string)) \<Rightarrow> string \<Rightarrow> run" where
  "main_sync sv create synced =
     (case notion_query_approved sv of
        Inl e \<Rightarrow> ([], Some e)
      | Inr approvedEvents \<Rightarrow>
          if length approvedEvents = 0 then ([], None)
          else sync_loop sv create synced approvedEvents)"

text \<open>\<^verbatim>\<open>main\<close> of \<^verbatim>\<open>sync-calendar.js\<close>, of the second script of \<^verbatim>\<open>part_000\<close>, and of \<^verbatim>\<open>part_001\<close>.\<close>

definition main_sync_calendar :: "host \<Rightarrow> services \<Rightarrow> run" where
  "main_sync_calendar h sv = main_sync sv (createCalendarEvent h sv) ''Synced to calendar on ''"

definition main_part_000 :: "services \<Rightarrow> run" where
  "main_part_000 sv = main_sync sv (createCalendarEvent_part_000 sv) ''Synced to Main Cal on ''"

text \<open>
  \<^verbatim>\<open>part_001\<close> first shares the calendar; \<^verbatim>\<open>shareCalendar\<close> swallows every error of it.
\<close>

definition main_part_001 :: "services \<Rightarrow> run" where
  "main_part_001 sv =
     (case main_sync sv (createCalendarEvent_part_001 sv) ''Synced to Google Calendar on '' of
        (rs, r) \<Rightarrow> (acl_insert ''primary'' ''reader'' ''rav@threeleafclover.us'' # rs, r))"

section \<open>Inputs of the worked examples\<close>

text \<open>
  A host in UTC whose \<^verbatim>\<open>Date.parse\<close> knows one timestamp, a page with every property
  absent, and services that answer every request with success.
\<close>

definition utc :: host where
  "utc = \<lparr>tza_utc = (\<lambda>t. 0), tza_local = (\<lambda>t. 0),
           parse_other = (\<lambda>s. if s = ''2024-06-01T00:00:00.000Z'' then Some 1717200000000 else None)\<rparr>"

definition blank :: page where
  "blank = \<lparr>page_id = ''p1'', Event_Name = None, Description = None, Location = None,
             Date_Time = None, Nag_Count = None, Last_Nagged = None, Last_edited_time = Undefined\<rparr>"

definition quiet :: services where
  "quiet = \<lparr>SLACK_USER_WINTER = Some ''U1'', SLACK_USER_SUMMER = Some ''U2'',
             SLACK_USER_RAV = Some ''U3'', date_now = (\<lambda>i. 1717207200001),
             date_new = (\<lambda>i. 1717207200500), slack_answers = (\<lambda>u m. Result True []),
             notion_pages_update = (\<lambda>i ps. None), notion_query_nag = Inr [],
             notion_query_approved = Inr [],
             calendar_events_insert = (\<lambda>c ev. Inr ''cal1''), calendar_acl_insert = None\<rparr>"

definition nagged :: page where
  "nagged = blank\<lparr>Nag_Count := Some 2,
     Last_Nagged := Some \<lparr>date_start = Some ''2024-06-01T00:00:00.000Z'', date_end = None\<rparr>\<rparr>"

definition date_only :: page where
  "date_only = blank\<lparr>page_id := ''p2'', Date_Time := Some \<lparr>date_start = Some ''2024-06-01'', date_end = None\<rparr>\<rparr>"

text \<open>
  A host in America/Los_Angeles for the year 2024: daylight saving time starts on
  2024-03-10 at 10:00 UTC (02:00 local) and ends on 2024-11-03 at 09:00 UTC.
\<close>

definition los_angeles :: host where
  "los_angeles =
     \<lparr>tza_utc = (\<lambda>t. if 1710064800000 \<le> t \<and> t < 1730624400000 then - 25200000 else - 28800000),
      tza_local = (\<lambda>t. if 1710039600000 \<le> t \<and> t < 1730599200000 then - 25200000 else - 28800000),
      parse_other = (\<lambda>s. None)\<rparr>"

definition spring_forward :: page where
  "spring_forward = blank\<lparr>Date_Time := Some \<lparr>date_start = Some ''2024-03-10'', date_end = None\<rparr>\<rparr>"

text \<open>Services whose Notion refuses every update, with two approved pages to sync.\<close>

definition down :: services where
  "down = quiet\<lparr>notion_pages_update := (\<lambda>i ps. Some (Error ''fetch failed'')),
                notion_query_approved := Inr [blank, date_only]\<rparr>"

section \<open>What the specification calls present\<close>

text \<open>
  The time is present when the start value contains the \<open>T\<close> that separates a date from a
  time of day. A text property is present when its text value, the \<^verbatim>\<open>plain_text\<close> of its
  first segment as every script of the repository reads it, exists and is not empty.
\<close>

definition time_present :: "page \<Rightarrow> bool" where
  "time_present e = (case start_of (Date_Time e) of None \<Rightarrow> False | Some s \<Rightarrow> CHR ''T'' \<in> set s)"

definition text_present :: "string list option \<Rightarrow> bool" where
  "text_present v = (case v of None \<Rightarrow> False | Some segs \<Rightarrow> segs \<noteq> [] \<and> hd segs \<noteq> [])"

section \<open>Calendar dates\<close>

text \<open>
  The dates that the date-only form \<^verbatim>\<open>YYYY-MM-DD\<close> can write, that form itself, and the
  day that follows a date in the calendar. A host is steady at a time \<open>t\<close> when its offset
  from UTC one local day after \<open>t\<close> is the offset it has at \<open>t\<close>.
\<close>

definition valid_date :: "int \<Rightarrow> int \<Rightarrow> int \<Rightarrow> bool" where
  "valid_date y m d = (0 \<le> y \<and> y \<le> 9999 \<and> 1 \<le> m \<and> m \<le> 12 \<and> 1 \<le> d \<and> d \<le> DaysInMonth y m)"

definition iso_date :: "int \<Rightarrow> int \<Rightarrow> int \<Rightarrow> string" where
  "iso_date y m d = year_string y @ ''-'' @ pad 2 (nat m) @ ''-'' @ pad 2 (nat d)"

definition day_after :: "int \<Rightarrow> int \<Rightarrow> int \<Rightarrow> int \<times> int \<times> int" where
  "day_after y m d =
     (if d < DaysInMonth y m then (y, m, d + 1)
      else if m < 12 then (y, m + 1, 1) else (y + 1, 1, 1))"

definition steady :: "host \<Rightarrow> int \<Rightarrow> bool" where
  "steady h t = (tza_local h (t + tza_utc h t + msPerDay) = tza_utc h t)"

text \<open>
  A request that writes the \<^verbatim>\<open>Status\<close> of a page, and an update that Notion accepted.
\<close>

definition sets_status :: "request \<Rightarrow> bool" where
  "sets_status r = (case r of pages_update i ps \<Rightarrow> ''Status'' \<in> fst ` set ps | _ \<Rightarrow> False)"

definition went_through :: "services \<Rightarrow> request \<Rightarrow> bool" where
  "went_through sv r =
     (case r of pages_update i ps \<Rightarrow> notion_pages_update sv i ps = None | _ \<Rightarrow> False)"

section \<open>Helper lemmas\<close>

lemma smod_nonneg: "0 \<le> (n::int) \<Longrightarrow> n smod 3 = n mod 3"
  by (simp add: signed_modulo_int_def sgn_if)

lemma includes_char: "includes_str s [c] = (c \<in> set s)"
  by (induction s) auto

lemma hasTime_of_eq: "hasTime_of e = time_present e"
  by (simp add: hasTime_of_def time_present_def includes_char split: option.splits)

lemma truthy_first: "truthy (first_plain_text v) = text_present v"
  by (simp add: truthy_def first_plain_text_def text_present_def split: option.splits list.splits)

lemma parse_stamp: "Date_parse utc ''2024-06-01T00:00:00.000Z'' = Some 1717200000000"
  by (simp add: Date_parse_def parse_iso_date_def utc_def)







lemma create_requests:
  "createCalendarEvent h sv e = (rs, x) \<Longrightarrow> r \<in> set rs \<Longrightarrow> \<not> sets_status r"
  by (auto simp: createCalendarEvent_def sets_status_def split: sum.splits)

lemma error_note_status: "\<not> sets_status (pages_update i (error_note err))"
  by (simp add: sets_status_def error_note_def)

section \<open>The calendar of the Date object\<close>

text \<open>
  The year of a day number is found from an estimate; these lemmas show that it is the
  year of the calendar, that the fields of a date are read back from its day number, and
  that the date-only form is parsed to the day number it writes.
\<close>

lemma div_lower: "0 < c \<Longrightarrow> a - (c - 1) \<le> c * (a div c)" for a c :: int
proof -
  assume c: "0 < c"
  have "a = c * (a div c) + a mod c" by simp
  moreover have "a mod c < c" using c by simp
  ultimately show ?thesis by linarith
qed

lemma div_upper: "0 < c \<Longrightarrow> c * (a div c) \<le> a" for a c :: int
proof -
  assume c: "0 < c"
  have "a = c * (a div c) + a mod c" by simp
  moreover have "0 \<le> a mod c" using c by simp
  ultimately show ?thesis by linarith
qed

lemma DayFromYear_bounds:
  "146097 * (y - 1970) - 506 \<le> 400 * DayFromYear y"
  "400 * DayFromYear y \<le> 146097 * (y - 1970) + 589"
proof -
  define A B C where "A = (y - 1969) div 4" and "B = (y - 1901) div 100"
    and "C = (y - 1601) div 400"
  have a: "y - 1969 - 3 \<le> 4 * A" "4 * A \<le> y - 1969"
    using div_lower [of 4 "y - 1969"] div_upper [of 4 "y - 1969"] by (simp_all add: A_def)
  have b: "y - 1901 - 99 \<le> 100 * B" "100 * B \<le> y - 1901"
    using div_lower [of 100 "y - 1901"] div_upper [of 100 "y - 1901"] by (simp_all add: B_def)
  have c: "y - 1601 - 399 \<le> 400 * C" "400 * C \<le> y - 1601"
    using div_lower [of 400 "y - 1601"] div_upper [of 400 "y - 1601"] by (simp_all add: C_def)
  have d: "DayFromYear y = 365 * (y - 1970) + A - B + C"
    by (simp add: DayFromYear_def A_def B_def C_def)
  show "146097 * (y - 1970) - 506 \<le> 400 * DayFromYear y"
    using a b c unfolding d by (simp add: algebra_simps)
  show "400 * DayFromYear y \<le> 146097 * (y - 1970) + 589"
    using a b c unfolding d by (simp add: algebra_simps)
qed

lemma div_step:
  "0 < c \<Longrightarrow> (a + 1) div c = a div c + (if (a + 1) mod c = 0 then 1 else 0)" for a c :: int
proof -
  assume c: "0 < c"
  have r: "0 \<le> a mod c" "a mod c < c" using c by simp_all
  have a: "a = c * (a div c) + a mod c" by simp
  show ?thesis
  proof (cases "a mod c + 1 = c")
    case True
    then have e: "a + 1 = c * (a div c + 1) + 0"
      using a by (metis add.assoc add.right_neutral distrib_left mult.right_neutral)
    have "(a + 1) div c = a div c + 1"
      using c e by (intro int_div_pos_eq [of _ _ _ 0]) simp_all
    moreover have "(a + 1) mod c = 0"
      using c e by (intro int_mod_pos_eq [of _ _ "a div c + 1"]) simp_all
    ultimately show ?thesis by simp
  next
    case False
    then have l: "a mod c + 1 < c" using r by linarith
    have e: "a + 1 = c * (a div c) + (a mod c + 1)"
      using a by linarith
    have "(a + 1) div c = a div c"
      using r l e by (intro int_div_pos_eq [of _ _ _ "a mod c + 1"]) simp_all
    moreover have "(a + 1) mod c = a mod c + 1"
      using r l e by (intro int_mod_pos_eq [of _ _ "a div c"]) simp_all
    ultimately show ?thesis using r by simp
  qed
qed

lemma leap_incl: "y mod 100 = 0 \<Longrightarrow> y mod 4 = 0" "y mod 400 = 0 \<Longrightarrow> y mod 100 = 0" for y :: int
proof -
  have "(4::int) dvd 100" "(100::int) dvd 400" by simp_all
  then have "100 dvd y \<Longrightarrow> 4 dvd y" "400 dvd y \<Longrightarrow> 100 dvd y"
    using dvd_trans by blast+
  then show "y mod 100 = 0 \<Longrightarrow> y mod 4 = 0" "y mod 400 = 0 \<Longrightarrow> y mod 100 = 0"
    by (simp_all only: mod_eq_0_iff_dvd)
qed

lemma DayFromYear_next: "DayFromYear (y + 1) = DayFromYear y + DaysInYear y"
proof -
  have m: "((y - 1968) mod 4 = 0) = (y mod 4 = 0)" "((y - 1900) mod 100 = 0) = (y mod 100 = 0)"
    "((y - 1600) mod 400 = 0) = (y mod 400 = 0)"
    using mod_diff_right_eq [of y 1968 4] mod_diff_right_eq [of y 1900 100]
      mod_diff_right_eq [of y 1600 400] by simp_all
  have a: "(y - 1968) div 4 = (y - 1969) div 4 + (if y mod 4 = 0 then 1 else 0)"
    using div_step [of 4 "y - 1969"] m by simp
  have b: "(y - 1900) div 100 = (y - 1901) div 100 + (if y mod 100 = 0 then 1 else 0)"
    using div_step [of 100 "y - 1901"] m by simp
  have c: "(y - 1600) div 400 = (y - 1601) div 400 + (if y mod 400 = 0 then 1 else 0)"
    using div_step [of 400 "y - 1601"] m by simp
  have s: "y + 1 - 1969 = y - 1968" "y + 1 - 1901 = y - 1900" "y + 1 - 1601 = y - 1600"
    "y + 1 - 1970 = y - 1970 + 1"
    by simp_all
  show ?thesis
    unfolding DayFromYear_def DaysInYear_def s a b c
    using leap_incl [of y] by auto
qed

lemma DayFromYear_mono: "DayFromYear y < DayFromYear (y + 1)"
  unfolding DayFromYear_next by (simp add: DaysInYear_def)

lemma YearFromDay_unique:
  assumes "DayFromYear y \<le> d" "d < DayFromYear (y + 1)"
  shows "YearFromDay d = y"
proof -
  define q where "q = (400 * d) div 146097"
  have q: "400 * d - 146096 \<le> 146097 * q" "146097 * q \<le> 400 * d"
    using div_lower [of 146097 "400 * d"] div_upper [of 146097 "400 * d"] by (simp_all add: q_def)
  have "y - 1971 \<le> q" "q \<le> y - 1969"
    using q assms DayFromYear_bounds [of y] DayFromYear_bounds [of "y + 1"]
    by (simp_all add: algebra_simps)
  then consider "q = y - 1971" | "q = y - 1970" | "q = y - 1969" by linarith
  then show ?thesis
  proof cases
    case 1
    then have "1970 + q + 1 = y" by simp
    then show ?thesis using assms unfolding YearFromDay_def Let_def q_def [symmetric] by simp
  next
    case 2
    then have "1970 + q = y" by simp
    then show ?thesis using assms unfolding YearFromDay_def Let_def q_def [symmetric] by simp
  next
    case 3
    then have e: "1970 + q = y + 1" by simp
    have "d < DayFromYear (y + 1 + 1)" using assms DayFromYear_mono [of "y + 1"] by linarith
    then show ?thesis using assms unfolding YearFromDay_def Let_def q_def [symmetric] e by simp
  qed
qed


lemma Day_MakeDate: "0 \<le> w \<Longrightarrow> w < msPerDay \<Longrightarrow> Day (MakeDate n w) = n"
  by (simp add: Day_def MakeDate_def msPerDay_def)

lemma TimeWithinDay_MakeDate: "0 \<le> w \<Longrightarrow> w < msPerDay \<Longrightarrow> TimeWithinDay (MakeDate n w) = w"
  by (simp add: TimeWithinDay_def MakeDate_def msPerDay_def)

lemma MakeDate_split: "MakeDate (Day t) (TimeWithinDay t) = t"
  by (simp add: MakeDate_def Day_def TimeWithinDay_def)

lemma MonthFromTime_range: "0 \<le> MonthFromTime t" "MonthFromTime t \<le> 11"
  by (simp_all add: MonthFromTime_def Let_def)

lemma MakeDay_decoded:
  "MakeDay (YearFromTime t) (MonthFromTime t) (DateFromTime t + k) = Day t + k"
proof -
  have "MonthFromTime t div 12 = 0" "MonthFromTime t mod 12 = MonthFromTime t"
    using MonthFromTime_range [of t] by simp_all
  then show ?thesis
    by (simp add: MakeDay_def DateFromTime_def DayWithinYear_def InLeapYear_def Let_def)
qed

lemma month_cases:
  "1 \<le> m \<Longrightarrow> m \<le> (12::int) \<Longrightarrow>
     m = 1 \<or> m = 2 \<or> m = 3 \<or> m = 4 \<or> m = 5 \<or> m = 6 \<or> m = 7 \<or> m = 8 \<or> m = 9 \<or> m = 10
     \<or> m = 11 \<or> m = 12"
  by arith

lemma DaysInYear_cases: "DaysInYear y = 365 \<or> DaysInYear y = 366"
  by (simp add: DaysInYear_def)

lemma MakeDay_first:
  assumes "0 \<le> k" "k \<le> 11"
  shows "MakeDay y k d = DayFromYear y + month_start (if DaysInYear y = 366 then 1 else 0) k + d - 1"
proof -
  have "k div 12 = 0" "k mod 12 = k" using assms by simp_all
  then show ?thesis by (simp add: MakeDay_def Let_def)
qed

lemma MakeDay_in_year:
  assumes "1 \<le> m" "m \<le> 12" "1 \<le> d" "d \<le> DaysInMonth y m"
  shows "DayFromYear y \<le> MakeDay y (m - 1) d \<and> MakeDay y (m - 1) d < DayFromYear (y + 1)"
  using month_cases [OF assms(1,2)] assms(3,4) DaysInYear_cases [of y]
  by (elim disjE; simp add: MakeDay_first DayFromYear_next month_start_def DaysInMonth_def)


lemma decode_MakeDay:
  assumes "1 \<le> m" "m \<le> 12" "1 \<le> d" "d \<le> DaysInMonth y m" "0 \<le> w" "w < msPerDay"
  shows "YearFromTime (MakeDate (MakeDay y (m - 1) d) w) = y
    \<and> MonthFromTime (MakeDate (MakeDay y (m - 1) d) w) = m - 1
    \<and> DateFromTime (MakeDate (MakeDay y (m - 1) d) w) = d"
proof -
  let ?t = "MakeDate (MakeDay y (m - 1) d) w"
  have y: "YearFromTime ?t = y"
    using MakeDay_in_year [OF assms(1-4)] assms(5,6)
    by (simp add: YearFromTime_def Day_MakeDate YearFromDay_unique)
  have l: "InLeapYear ?t = (if DaysInYear y = 366 then 1 else 0)"
    by (simp add: InLeapYear_def y)
  have k: "0 \<le> m - 1" "m - 1 \<le> 11" using assms(1,2) by simp_all
  have "DayWithinYear ?t = MakeDay y (m - 1) d - DayFromYear y"
    by (simp only: DayWithinYear_def y Day_MakeDate [OF assms(5,6)])
  then have w: "DayWithinYear ?t = month_start (if DaysInYear y = 366 then 1 else 0) (m - 1) + d - 1"
    by (simp add: MakeDay_first [OF k])
  have mo: "MonthFromTime ?t = m - 1"
    unfolding MonthFromTime_def Let_def w l
    using month_cases [OF assms(1,2)] assms(3,4) DaysInYear_cases [of y]
    by (elim disjE; simp add: month_start_def DaysInMonth_def)
  have "DateFromTime ?t = d"
    unfolding DateFromTime_def mo w l by simp
  with y mo show ?thesis by simp
qed

lemma day_after_next:
  assumes "1 \<le> m" "m \<le> 12" "1 \<le> d" "d \<le> DaysInMonth y m"
  shows "case day_after y m d of (y', m', d') \<Rightarrow>
           1 \<le> m' \<and> m' \<le> 12 \<and> 1 \<le> d' \<and> d' \<le> DaysInMonth y' m'
           \<and> MakeDay y' (m' - 1) d' = MakeDay y (m - 1) d + 1"
  using month_cases [OF assms(1,2)] assms(3,4) DaysInYear_cases [of y]
  by (elim disjE;
      simp add: day_after_def MakeDay_first DayFromYear_next month_start_def DaysInMonth_def)

lemma below_ten:
  "k < (10::nat) \<Longrightarrow> k = 0 \<or> k = 1 \<or> k = 2 \<or> k = 3 \<or> k = 4 \<or> k = 5 \<or> k = 6 \<or> k = 7 \<or> k = 8 \<or> k = 9"
  by arith

lemma digit_char_props:
  "digit_val (digit_char n) = Some (n mod 10)" "digit_char n \<noteq> CHR ''T''"
  "CHR ''T'' \<noteq> digit_char n"
proof -
  have "n mod 10 < 10" by simp
  from below_ten [OF this]
  show "digit_val (digit_char n) = Some (n mod 10)" "digit_char n \<noteq> CHR ''T''"
    "CHR ''T'' \<noteq> digit_char n"
    unfolding digit_char_def digit_val_def Let_def by (elim disjE; simp)+
qed

lemma digit_char_0: "digit_char 0 = CHR ''0''"
  by (simp add: digit_char_def)

lemma nat_to_string_1: "n < 10 \<Longrightarrow> nat_to_string n = [digit_char n]"
  by simp

lemma nat_to_string_large: "10 \<le> n \<Longrightarrow> nat_to_string n = nat_to_string (n div 10) @ [digit_char n]"
  by simp

lemma nat_to_string_2:
  assumes "10 \<le> n" "n < 100"
  shows "nat_to_string n = [digit_char (n div 10), digit_char n]"
proof -
  have "n div 10 < 10" using assms by simp
  then show ?thesis
    by (simp only: nat_to_string_large [OF assms(1)] nat_to_string_1 append.simps)
qed

lemma nat_to_string_3:
  assumes "100 \<le> n" "n < 1000"
  shows "nat_to_string n = [digit_char (n div 100), digit_char (n div 10), digit_char n]"
proof -
  have a: "10 \<le> n" "10 \<le> n div 10" "n div 10 < 100" using assms by simp_all
  have d: "n div 10 div 10 = n div 100" by (simp add: div_mult2_eq)
  show ?thesis
    by (simp only: nat_to_string_large [OF a(1)] nat_to_string_2 [OF a(2,3)] d append.simps)
qed

lemma nat_to_string_4:
  assumes "1000 \<le> n" "n < 10000"
  shows "nat_to_string n =
    [digit_char (n div 1000), digit_char (n div 100), digit_char (n div 10), digit_char n]"
proof -
  have a: "10 \<le> n" "100 \<le> n div 10" "n div 10 < 1000" using assms by simp_all
  have d: "n div 10 div 10 = n div 100" "n div 10 div 100 = n div 1000" by (simp_all add: div_mult2_eq)
  show ?thesis
    by (simp only: nat_to_string_large [OF a(1)] nat_to_string_3 [OF a(2,3)] d append.simps)
qed

lemma replicate_small: "replicate 1 c = [c]" "replicate 2 c = [c, c]" "replicate 3 c = [c, c, c]"
  by (simp_all add: numeral_2_eq_2 numeral_3_eq_3)

lemma pad_2: 
  assumes "n < 100" shows "pad 2 n = [digit_char (n div 10), digit_char n]"
proof (cases "n < 10")
  case True
  then have "n div 10 = 0" by simp
  with True show ?thesis
    by (simp add: pad_def nat_to_string_1 digit_char_0 del: nat_to_string.simps)
next
  case False
  then have "10 \<le> n" by simp
  from nat_to_string_2 [OF this assms] show ?thesis
    by (simp add: pad_def del: nat_to_string.simps)
qed

lemma pad_3:
  assumes "n < 1000"
  shows "pad 3 n = [digit_char (n div 100), digit_char (n div 10), digit_char n]"
proof -
  consider "n < 10" | "10 \<le> n" "n < 100" | "100 \<le> n" using assms by linarith
  then show ?thesis
  proof cases
    case 1
    then have "n div 10 = 0" "n div 100 = 0" by simp_all
    with 1 show ?thesis
      by (simp add: pad_def nat_to_string_1 digit_char_0 replicate_small del: nat_to_string.simps)
  next
    case 2
    then have "n div 100 = 0" by simp
    with nat_to_string_2 [OF 2] show ?thesis
      by (simp add: pad_def digit_char_0 replicate_small del: nat_to_string.simps)
  next
    case 3
    from nat_to_string_3 [OF 3 assms] show ?thesis
      by (simp add: pad_def del: nat_to_string.simps)
  qed
qed

lemma pad_4:
  assumes "n < 10000"
  shows "pad 4 n =
    [digit_char (n div 1000), digit_char (n div 100), digit_char (n div 10), digit_char n]"
proof -
  consider "n < 10" | "10 \<le> n" "n < 100" | "100 \<le> n" "n < 1000" | "1000 \<le> n"
    using assms by linarith
  then show ?thesis
  proof cases
    case 1
    then have "n div 10 = 0" "n div 100 = 0" "n div 1000 = 0" by simp_all
    with 1 show ?thesis
      by (simp add: pad_def nat_to_string_1 digit_char_0 replicate_small del: nat_to_string.simps)
  next
    case 2
    then have "n div 100 = 0" "n div 1000 = 0" by simp_all
    with nat_to_string_2 [OF 2] show ?thesis
      by (simp add: pad_def digit_char_0 replicate_small del: nat_to_string.simps)
  next
    case 3
    then have "n div 1000 = 0" by simp
    with nat_to_string_3 [OF 3] show ?thesis
      by (simp add: pad_def digit_char_0 replicate_small del: nat_to_string.simps)
  next
    case 4
    from nat_to_string_4 [OF 4 assms] show ?thesis
      by (simp add: pad_def del: nat_to_string.simps)
  qed
qed

lemma T_notin_nat_to_string: "CHR ''T'' \<notin> set (nat_to_string n)"
proof (induction n rule: nat_to_string.induct)
  case (1 n)
  show ?case
  proof (cases "n < 10")
    case True
    then show ?thesis by (simp add: digit_char_props)
  next
    case False
    then have "10 \<le> n" by simp
    from 1 [OF False] show ?thesis
      by (simp add: nat_to_string_large [OF \<open>10 \<le> n\<close>] digit_char_props del: nat_to_string.simps)
  qed
qed

lemma T_notin_pad: "CHR ''T'' \<notin> set (pad w n)"
  by (simp add: pad_def T_notin_nat_to_string del: nat_to_string.simps)

lemma T_notin_year_string: "CHR ''T'' \<notin> set (year_string y)"
  by (simp add: year_string_def T_notin_pad)

lemma T_notin_iso_date: "CHR ''T'' \<notin> set (iso_date y m d)"
  by (simp add: iso_date_def T_notin_pad T_notin_year_string)

lemma digits_2: "n < 100 \<Longrightarrow> (n div 10) mod 10 * 10 + n mod 10 = n" for n :: nat
  by simp

lemma digits_4:
  fixes n :: nat
  assumes "n < 10000"
  shows "(((n div 1000) mod 10 * 10 + (n div 100) mod 10) * 10 + (n div 10) mod 10) * 10 + n mod 10 = n"
proof -
  define a b c e p q where "a = n div 1000" and "b = n div 100 mod 10" and "c = n div 10 mod 10"
    and "e = n mod 10" and "p = n div 100" and "q = n div 10"
  have "p div 10 = a" "q div 10 = p"
    by (simp_all add: a_def p_def q_def div_mult2_eq)
  then have "p = 10 * a + b" "q = 10 * p + c" "n = 10 * q + e"
    using div_mult_mod_eq [of p 10] div_mult_mod_eq [of q 10] div_mult_mod_eq [of n 10]
    by (simp_all add: b_def c_def e_def p_def q_def)
  moreover have "n div 1000 mod 10 = a" using assms by (simp add: a_def)
  ultimately show ?thesis
    unfolding a_def [symmetric] b_def [symmetric] c_def [symmetric] e_def [symmetric]
    by (simp add: algebra_simps)
qed

lemma read_digits_2:
  "n < 100 \<Longrightarrow> read_digits 0 [digit_char (n div 10), digit_char n] = Some n"
  by (simp add: digit_char_props digits_2)

lemma read_digits_4:
  "n < 10000 \<Longrightarrow>
     read_digits 0 [digit_char (n div 1000), digit_char (n div 100), digit_char (n div 10), digit_char n]
       = Some n"
  using digits_4 [of n] by (simp add: digit_char_props)

lemma DaysInMonth_le: "DaysInMonth y m \<le> 31"
  by (simp add: DaysInMonth_def)

lemma iso_date_explicit:
  assumes "valid_date y m d"
  shows "iso_date y m d =
    [digit_char (nat y div 1000), digit_char (nat y div 100), digit_char (nat y div 10),
     digit_char (nat y), CHR ''-'', digit_char (nat m div 10), digit_char (nat m), CHR ''-'',
     digit_char (nat d div 10), digit_char (nat d)]"
proof -
  have "nat y < 10000" "nat m < 100" "nat d < 100" "0 \<le> y" "y \<le> 9999"
    using assms DaysInMonth_le [of y m] unfolding valid_date_def by linarith+
  then show ?thesis
    by (simp add: iso_date_def year_string_def pad_4 pad_2)
qed

lemma parse_iso_date_iso_date:
  assumes "valid_date y m d"
  shows "parse_iso_date (iso_date y m d) = Some (MakeDay y (m - 1) d)"
proof -
  have b: "nat y < 10000" "nat m < 100" "nat d < 100"
    using assms DaysInMonth_le [of y m] unfolding valid_date_def by linarith+
  have v: "0 \<le> y" "1 \<le> m" "m \<le> 12" "1 \<le> d" "d \<le> DaysInMonth y m"
    using assms by (simp_all add: valid_date_def)
  have n: "Suc 0 \<le> nat m" "nat m \<le> 12" "Suc 0 \<le> nat d"
    using v by linarith+
  show ?thesis
    unfolding iso_date_explicit [OF assms] parse_iso_date_def
    using v n by (simp add: read_digits_4 [OF b(1)] read_digits_2 [OF b(2)] read_digits_2 [OF b(3)]
        del: read_digits.simps)
qed

lemma setDate_next:
  assumes "steady h t" "\<bar>t + msPerDay\<bar> \<le> 8640000000000000"
  shows "setDate h t (getDate h t + 1) = Some (t + msPerDay)"
proof -
  let ?lt = "LocalTime h t"
  have "MakeDate (MakeDay (YearFromTime ?lt) (MonthFromTime ?lt) (DateFromTime ?lt + 1))
          (TimeWithinDay ?lt) = MakeDate (Day ?lt) (TimeWithinDay ?lt) + msPerDay"
    by (simp only: MakeDay_decoded) (simp add: MakeDate_def algebra_simps)
  then have "MakeDate (MakeDay (YearFromTime ?lt) (MonthFromTime ?lt) (DateFromTime ?lt + 1))
          (TimeWithinDay ?lt) = t + tza_utc h t + msPerDay"
    by (simp add: MakeDate_split LocalTime_def)
  moreover have "UTC h (t + tza_utc h t + msPerDay) = t + msPerDay"
    using assms(1) by (simp add: UTC_def steady_def)
  ultimately show ?thesis
    using assms(2) by (simp add: setDate_def getDate_def Let_def TimeClip_def)
qed

lemma split_T_0_date: "CHR ''T'' \<notin> set s \<Longrightarrow> split_T_0 (s @ CHR ''T'' # r) = s"
  by (auto simp add: split_T_0_def takeWhile_tail)

lemma split_T_0_all: "CHR ''T'' \<notin> set s \<Longrightarrow> split_T_0 s = s"
  by (auto simp add: split_T_0_def)

lemma toISOString_midnight:
  assumes "1 \<le> m" "m \<le> 12" "1 \<le> d" "d \<le> DaysInMonth y m"
  shows "split_T_0 (toISOString (MakeDate (MakeDay y (m - 1) d) 0)) = iso_date y m d"
proof -
  have w: "(0::int) \<le> 0" "0 < msPerDay" by (simp_all add: msPerDay_def)
  from decode_MakeDay [OF assms w]
  have "toISOString (MakeDate (MakeDay y (m - 1) d) 0) =
      iso_date y m d @ CHR ''T'' #
        (let w = TimeWithinDay (MakeDate (MakeDay y (m - 1) d) 0)
         in pad 2 (nat (w div 3600000)) @ '':''
         @ pad 2 (nat (w div 60000 mod 60)) @ '':'' @ pad 2 (nat (w div 1000 mod 60)) @ ''.''
         @ pad 3 (nat (w mod 1000)) @ ''Z'')"
    by (simp add: toISOString_def iso_date_def Let_def)
  then show ?thesis
    by (simp only: split_T_0_date [OF T_notin_iso_date])
qed

lemma MakeDay_range:
  assumes "valid_date y m d"
  shows "- 100000000 < MakeDay y (m - 1) d" "MakeDay y (m - 1) d < 99999999"
proof -
  have v: "0 \<le> y" "y \<le> 9999" "1 \<le> m" "m \<le> 12" "1 \<le> d" "d \<le> DaysInMonth y m"
    using assms by (simp_all add: valid_date_def)
  define N A B where "N = MakeDay y (m - 1) d" and "A = DayFromYear y" and "B = DayFromYear (y + 1)"
  have "A \<le> N" "N < B"
    using MakeDay_in_year [OF v(3-6)] by (simp_all add: N_def A_def B_def)
  moreover have "146097 * (y - 1970) - 506 \<le> 400 * A" "400 * B \<le> 146097 * (y + 1 - 1970) + 589"
    using DayFromYear_bounds(1) [of y] DayFromYear_bounds(2) [of "y + 1"]
    by (simp_all add: A_def B_def)
  ultimately have "- 100000000 < N" "N < 99999999"
    using v(1,2) by (simp_all add: algebra_simps)
  then show "- 100000000 < MakeDay y (m - 1) d" "MakeDay y (m - 1) d < 99999999"
    by (simp_all add: N_def)
qed

lemma nextDay_steady:
  assumes "valid_date y m d" "steady h (MakeDate (MakeDay y (m - 1) d) 0)"
  shows "nextDay h (iso_date y m d) =
           Inr (case day_after y m d of (y', m', d') \<Rightarrow> iso_date y' m' d')"
proof -
  have v: "1 \<le> m" "m \<le> 12" "1 \<le> d" "d \<le> DaysInMonth y m"
    using assms(1) by (simp_all add: valid_date_def)
  let ?N = "MakeDay y (m - 1) d"
  obtain y' m' d' where a: "day_after y m d = (y', m', d')"
    by (cases "day_after y m d") auto
  from day_after_next [OF v] a
  have n: "1 \<le> m'" "m' \<le> 12" "1 \<le> d'" "d' \<le> DaysInMonth y' m'"
    "MakeDay y' (m' - 1) d' = ?N + 1"
    by simp_all
  have p: "Date_parse h (iso_date y m d) = Some (MakeDate ?N 0)"
    by (simp add: Date_parse_def parse_iso_date_iso_date [OF assms(1)])
  have r: "\<bar>MakeDate ?N 0 + msPerDay\<bar> \<le> 8640000000000000"
    using MakeDay_range [OF assms(1)] by (simp add: MakeDate_def msPerDay_def)
  have s: "setDate h (MakeDate ?N 0) (getDate h (MakeDate ?N 0) + 1) = Some (MakeDate (?N + 1) 0)"
    using setDate_next [OF assms(2) r] by (simp add: MakeDate_def algebra_simps)
  have "split_T_0 (toISOString (MakeDate (?N + 1) 0)) = iso_date y' m' d'"
    using toISOString_midnight [OF n(1-4)] by (simp only: n(5))
  then show ?thesis
    by (simp add: nextDay_def p s a)
qed

lemma iso_date_not_empty: "valid_date y m d \<Longrightarrow> iso_date y m d \<noteq> []"
  by (simp add: iso_date_explicit)

lemma all_day_single_next_day:
  assumes "valid_date y m d" "start_of (Date_Time p) = Some (iso_date y m d)"
    "present (end_of (Date_Time p)) = None" "steady h (MakeDate (MakeDay y (m - 1) d) 0)"
  shows "createCalendarEvent_body h p =
     Inr \<lparr>summary = or_default (first_plain_text (Event_Name p)) ''Untitled Event'',
          description = or_default (first_plain_text (Description p)) [],
          location = or_default (first_plain_text (Location p)) [],
          event_start = all_day (iso_date y m d),
          event_end = all_day (case day_after y m d of (y', m', d') \<Rightarrow> iso_date y' m' d')\<rparr>"
proof -
  have a: "present (start_of (Date_Time p)) = Some (iso_date y m d)"
    using iso_date_not_empty [OF assms(1)] by (simp add: assms(2) present_def)
  have b: "\<not> includes_str (iso_date y m d) ''T''"
    by (simp add: includes_char T_notin_iso_date)
  have c: "split_T_0 (iso_date y m d) = iso_date y m d"
    by (simp add: split_T_0_all T_notin_iso_date)
  show ?thesis
    by (simp add: createCalendarEvent_body_def Let_def a b c assms(3)
        nextDay_steady [OF assms(1,4)])
qed

section \<open>The nag scheduler\<close>

text \<open>
  C1. A record whose nag count is 5 or more is given up on whatever its timestamps and
  the clock are: the decision is \<^verbatim>\<open>{ should: false, reason: 'max_attempts' }\<close>, and the
  orchestrator's only request for the record is the update of \<^verbatim>\<open>Nag Status\<close> to
  \<^verbatim>\<open>Gave Up\<close>; no message is sent.
\<close>

theorem give_up_after_five:
  "Nag_Count e = Some n \<Longrightarrow> 5 \<le> n \<Longrightarrow>
     shouldNagNow h now e = \<lparr>should = False, reason = max_attempts\<rparr>
     \<and> nag_event h sv e =
         ([pages_update (page_id e) [(''Nag Status'', Select ''Gave Up'')]],
          notion_pages_update sv (page_id e) [(''Nag Status'', Select ''Gave Up'')])"
  by (simp add: shouldNagNow_def nag_event_def number_or_0_def Let_def)

theorem give_up_after_five_witness:
  "shouldNagNow utc 0 (blank\<lparr>Nag_Count := Some 5\<rparr>) = \<lparr>should = False, reason = max_attempts\<rparr>
   \<and> nag_event utc quiet (blank\<lparr>Nag_Count := Some 5\<rparr>) =
         ([pages_update ''p1'' [(''Nag Status'', Select ''Gave Up'')]], None)"
  using give_up_after_five [of "blank\<lparr>Nag_Count := Some 5\<rparr>" 5 utc 0 quiet]
  by (simp add: blank_def quiet_def)

text \<open>
  C2 at the pages the code receives. \<^verbatim>\<open>props['Last edited time']\<close> goes to \<^verbatim>\<open>new Date\<close> as
  it is, while every other read unwraps the property (\<^verbatim>\<open>?.number\<close>, \<^verbatim>\<open>?.date?.start\<close>). A
  page of the database query holds a property object there, or nothing; on a host whose
  \<^verbatim>\<open>Date.parse\<close> rejects \<^verbatim>\<open>[object Object]\<close> the date is invalid, \<^verbatim>\<open>lastEdited < hourAgo\<close> is
  false, and a record with nag count 0 is \<^verbatim>\<open>too_soon\<close> at every clock: the first nag
  never becomes due, however long ago the record was edited.
\<close>

theorem first_nag_never_due:
  "number_or_0 (Nag_Count e) = 0 \<Longrightarrow>
   Last_edited_time e = Obj \<or> Last_edited_time e = Undefined \<Longrightarrow>
   parse_other h ''[object Object]'' = None \<Longrightarrow>
     shouldNagNow h now e = \<lparr>should = False, reason = too_soon\<rparr>"
  by (auto simp add: shouldNagNow_def Let_def date_less_def Date_parse_def parse_iso_date_def)

theorem first_nag_never_due_witness:
  "shouldNagNow utc 1717207200000 (blank\<lparr>Last_edited_time := Obj\<rparr>)
     = \<lparr>should = False, reason = too_soon\<rparr>
   \<and> shouldNagNow utc 1717207200000 blank = \<lparr>should = False, reason = too_soon\<rparr>"
  using first_nag_never_due [of "blank\<lparr>Last_edited_time := Obj\<rparr>" utc 1717207200000]
    first_nag_never_due [of blank utc 1717207200000]
  by (simp add: blank_def number_or_0_def utc_def)

text \<open>
  The branch for nag count 0 where the value handed to \<^verbatim>\<open>new Date\<close> does convert to a time
  value \<open>t\<close>: due (\<^verbatim>\<open>first_nag\<close>) exactly when \<open>now - t > 3600000\<close>, the comparison being
  strict, and \<^verbatim>\<open>too_soon\<close> otherwise.
\<close>

lemma first_nag_strictly_after_one_hour:
  "number_or_0 (Nag_Count e) = 0 \<Longrightarrow> new_Date h (Last_edited_time e) = Some t \<Longrightarrow>
   0 \<le> now \<Longrightarrow> now \<le> 8640000000000000 \<Longrightarrow>
     shouldNagNow h now e =
       (if now - t > 3600000 then \<lparr>should = True, reason = first_nag\<rparr>
        else \<lparr>should = False, reason = too_soon\<rparr>)"
  by (auto simp add: shouldNagNow_def Let_def date_less_def TimeClip_def)

text \<open>
  C3, as the code has it. For a record with a nag count other than 0 and below 5: without
  a last nagged time the decision is due (\<^verbatim>\<open>unknown_state\<close>); with a last nagged time
  that is a valid timestamp \<open>t\<close> it is due (\<^verbatim>\<open>follow_up\<close>) exactly when more than two hours
  have passed, \<open>now - t > 7200000\<close>, and not due (\<^verbatim>\<open>too_soon\<close>) otherwise.
\<close>

theorem follow_up_strictly_after_two_hours:
  "number_or_0 (Nag_Count e) \<noteq> 0 \<Longrightarrow> number_or_0 (Nag_Count e) < 5 \<Longrightarrow>
   0 \<le> now \<Longrightarrow> now \<le> 8640000000000000 \<Longrightarrow>
     (present (start_of (Last_Nagged e)) = None \<longrightarrow>
        shouldNagNow h now e = \<lparr>should = True, reason = unknown_state\<rparr>)
     \<and> (\<forall>s t. present (start_of (Last_Nagged e)) = Some s \<and> Date_parse h s = Some t \<longrightarrow>
          shouldNagNow h now e =
            (if now - t > 7200000 then \<lparr>should = True, reason = follow_up\<rparr>
             else \<lparr>should = False, reason = too_soon\<rparr>))"
  by (auto simp add: shouldNagNow_def Let_def date_less_def TimeClip_def)

theorem follow_up_strictly_after_two_hours_witness:
  "shouldNagNow utc 1717207200001 (blank\<lparr>Nag_Count := Some 2\<rparr>) = \<lparr>should = True, reason = unknown_state\<rparr>
   \<and> shouldNagNow utc 1717207200001 nagged = \<lparr>should = True, reason = follow_up\<rparr>
   \<and> shouldNagNow utc 1717207200000 nagged = \<lparr>should = False, reason = too_soon\<rparr>"
  using follow_up_strictly_after_two_hours [of "blank\<lparr>Nag_Count := Some 2\<rparr>" 1717207200001 utc]
    follow_up_strictly_after_two_hours [of nagged 1717207200001 utc]
    follow_up_strictly_after_two_hours [of nagged 1717207200000 utc]
  by (simp add: blank_def nagged_def number_or_0_def parse_stamp present_def start_of_def)

text \<open>
  C3 as stated, due if and only if \<open>now - last_nagged \<ge> 2 hours\<close>, fails at exactly two
  hours: the record below has nag count 2 and was nagged at 2024-06-01T00:00:00Z, the
  clock reads 2024-06-01T02:00:00Z, and the decision is \<^verbatim>\<open>too_soon\<close>.
\<close>

theorem follow_up_at_two_hours_counterexample:
  "number_or_0 (Nag_Count nagged) = 2
   \<and> present (start_of (Last_Nagged nagged)) = Some ''2024-06-01T00:00:00.000Z''
   \<and> Date_parse utc ''2024-06-01T00:00:00.000Z'' = Some 1717200000000
   \<and> 1717207200000 - 1717200000000 \<ge> (7200000::int)
   \<and> shouldNagNow utc 1717207200000 nagged = \<lparr>should = False, reason = too_soon\<rparr>"
  by (simp add: shouldNagNow_def Let_def date_less_def TimeClip_def blank_def nagged_def
      number_or_0_def parse_stamp present_def start_of_def)

text \<open>
  C8. For a nag count \<open>n \<ge> 0\<close> the recipient is \<open>rotation[n mod 3]\<close> over
  \<open>[winter, summer, rav]\<close>; the choice has period 3 and depends on \<open>n mod 3\<close> only.
\<close>

theorem getNextPerson_rotation:
  "0 \<le> n \<Longrightarrow>
     getNextPerson n = Some ([''winter'', ''summer'', ''rav''] ! nat (n mod 3))
     \<and> getNextPerson (n + 3) = getNextPerson n
     \<and> (\<forall>m. 0 \<le> m \<and> m mod 3 = n mod 3 \<longrightarrow> getNextPerson m = getNextPerson n)"
  by (simp add: getNextPerson_def js_index_def smod_nonneg rotation_def)

theorem getNextPerson_rotation_witness:
  "getNextPerson 4 = Some ''summer'' \<and> getNextPerson 7 = getNextPerson 4 \<and> getNextPerson 1 = getNextPerson 4"
  using getNextPerson_rotation [of 4] by (simp add: rotation_def)

section \<open>Field completeness and the message\<close>

text \<open>
  C7. \<open>getMissingFields\<close> returns exactly the names among \<open>time\<close>, \<open>location\<close> and
  \<open>description\<close> whose value is not present, each once; and \<open>isMissingInfo\<close> holds exactly
  when that list is not empty.
\<close>

theorem getMissingFields_exact:
  "set (getMissingFields e) =
     {f. (f = ''time'' \<and> \<not> time_present e) \<or> (f = ''location'' \<and> \<not> text_present (Location e))
         \<or> (f = ''description'' \<and> \<not> text_present (Description e))}
   \<and> distinct (getMissingFields e)
   \<and> (isMissingInfo e = (getMissingFields e \<noteq> []))"
  by (auto simp add: getMissingFields_def isMissingInfo_def Let_def hasTime_of_eq truthy_first)

theorem getMissingFields_exact_witness:
  "set (getMissingFields (date_only\<lparr>Location := Some [''Hall'']\<rparr>)) = {''time'', ''description''}
   \<and> distinct (getMissingFields (date_only\<lparr>Location := Some [''Hall'']\<rparr>))
   \<and> isMissingInfo (date_only\<lparr>Location := Some [''Hall'']\<rparr>)"
proof -
  let ?p = "date_only\<lparr>Location := Some [''Hall'']\<rparr>"
  have t: "\<not> time_present ?p"
    by (simp add: date_only_def blank_def time_present_def start_of_def)
  have l: "text_present (Location ?p)"
    by (simp add: text_present_def)
  have d: "\<not> text_present (Description ?p)"
    by (simp add: date_only_def blank_def text_present_def)
  have s: "{f. (f = ''time'' \<and> \<not> time_present ?p) \<or> (f = ''location'' \<and> \<not> text_present (Location ?p))
         \<or> (f = ''description'' \<and> \<not> text_present (Description ?p))} = {''time'', ''description''}"
    unfolding simp_thms(6) using t l d by blast
  from getMissingFields_exact [of ?p] have
    e: "set (getMissingFields ?p) = {''time'', ''description''}"
    and r: "distinct (getMissingFields ?p)"
    and i: "isMissingInfo ?p = (getMissingFields ?p \<noteq> [])"
    unfolding s by blast+
  from e have "getMissingFields ?p \<noteq> []"
    by (cases "getMissingFields ?p") simp_all
  with e r i show ?thesis
    by blast
qed




section \<open>The nag orchestrator\<close>




section \<open>The calendar sync\<close>

text \<open>
  C10. In the two variants without the all-day branch, \<open>createCalendarEvent\<close> issues the
  insert for every page, with a body whose start and end are \<^verbatim>\<open>dateTime\<close> values in the
  time zone \<^verbatim>\<open>America/Los_Angeles\<close>, never \<^verbatim>\<open>date\<close> values: the start is the page's start
  value whatever it is (date-only or absent included) and the end is the page's end
  value, or the start when there is none.
\<close>

theorem timed_variants_never_all_day:
  "createCalendarEvent_part_000 sv p =
     ([events_insert CALENDAR_ID_part_000 (createCalendarEvent_timed_body p)],
      calendar_events_insert sv CALENDAR_ID_part_000 (createCalendarEvent_timed_body p))
   \<and> createCalendarEvent_part_001 sv p =
     ([events_insert ''primary'' (createCalendarEvent_timed_body p)],
      calendar_events_insert sv ''primary'' (createCalendarEvent_timed_body p))
   \<and> event_start (createCalendarEvent_timed_body p) =
       \<lparr>dateTime = start_of (Date_Time p), timeZone = Some ''America/Los_Angeles'', date = None\<rparr>
   \<and> event_end (createCalendarEvent_timed_body p) =
       \<lparr>dateTime = (if present (end_of (Date_Time p)) = None then start_of (Date_Time p)
                    else end_of (Date_Time p)),
        timeZone = Some ''America/Los_Angeles'', date = None\<rparr>"
  by (simp add: createCalendarEvent_part_000_def createCalendarEvent_part_001_def
      createCalendarEvent_timed_body_def timed_def time_zone_def or_undefined_def truthy_def
      present_def Let_def split: option.splits)

theorem timed_variants_never_all_day_witness:
  "event_start (createCalendarEvent_timed_body date_only) =
       \<lparr>dateTime = Some ''2024-06-01'', timeZone = Some ''America/Los_Angeles'', date = None\<rparr>
   \<and> event_end (createCalendarEvent_timed_body date_only) =
       \<lparr>dateTime = Some ''2024-06-01'', timeZone = Some ''America/Los_Angeles'', date = None\<rparr>
   \<and> event_start (createCalendarEvent_timed_body blank) =
       \<lparr>dateTime = None, timeZone = Some ''America/Los_Angeles'', date = None\<rparr>
   \<and> fst (createCalendarEvent_part_000 quiet blank) =
        [events_insert CALENDAR_ID_part_000 (createCalendarEvent_timed_body blank)]
   \<and> fst (createCalendarEvent_part_001 quiet blank) =
        [events_insert ''primary'' (createCalendarEvent_timed_body blank)]"
  using timed_variants_never_all_day [of quiet date_only] timed_variants_never_all_day [of quiet blank]
  by (simp add: date_only_def blank_def start_of_def end_of_def present_def)


text \<open>
  C6, as the code has it. In \<^verbatim>\<open>sync-calendar.js\<close> a page without a start value makes
  \<open>createCalendarEvent\<close> throw before any insert, and the only request for the page is the
  error note. On every failure of the per-record flow (the creation throws, or the update
  to \<^verbatim>\<open>Scheduled\<close> is refused) the last request is the error note and no update that
  writes the status went through. The loop goes on to the next page when the error note
  is accepted; when the error note itself is refused, that error leaves the loop and the
  run ends there.
\<close>

theorem sync_failure_keeps_status:
  "(present (start_of (Date_Time e)) = None \<longrightarrow>
      createCalendarEvent h sv e = ([], Inl (Error ''Date & Time is required''))
      \<and> fst (sync_event sv (createCalendarEvent h sv) synced e) =
          [pages_update (page_id e) (error_note (Error ''Date & Time is required''))])
   \<and> (\<forall>err. snd (createCalendarEvent h sv e) = Inl err
          \<or> (\<exists>cid. snd (createCalendarEvent h sv e) = Inr cid
                \<and> notion_pages_update sv (page_id e)
                     (updateNotionEvent synced (date_new sv (page_id e)) cid) = Some err)
        \<longrightarrow> last (fst (sync_event sv (createCalendarEvent h sv) synced e))
              = pages_update (page_id e) (error_note err)
            \<and> snd (sync_event sv (createCalendarEvent h sv) synced e)
              = notion_pages_update sv (page_id e) (error_note err)
            \<and> (\<forall>r \<in> set (fst (sync_event sv (createCalendarEvent h sv) synced e)).
                  sets_status r \<longrightarrow> \<not> went_through sv r))
   \<and> (snd (sync_event sv (createCalendarEvent h sv) synced e) = None \<longrightarrow>
        sync_loop sv (createCalendarEvent h sv) synced (e # es) =
          (fst (sync_event sv (createCalendarEvent h sv) synced e)
             @ fst (sync_loop sv (createCalendarEvent h sv) synced es),
           snd (sync_loop sv (createCalendarEvent h sv) synced es)))
   \<and> (\<forall>err. snd (sync_event sv (createCalendarEvent h sv) synced e) = Some err \<longrightarrow>
        sync_loop sv (createCalendarEvent h sv) synced (e # es) =
          (fst (sync_event sv (createCalendarEvent h sv) synced e), Some err))"
proof -
  let ?c = "createCalendarEvent h sv"
  have a: "present (start_of (Date_Time e)) = None \<longrightarrow>
      ?c e = ([], Inl (Error ''Date & Time is required''))
      \<and> fst (sync_event sv ?c synced e) =
          [pages_update (page_id e) (error_note (Error ''Date & Time is required''))]"
    by (simp add: createCalendarEvent_def createCalendarEvent_body_def sync_event_def
        catch_sync_def Let_def)
  have b: "last (fst (sync_event sv ?c synced e)) = pages_update (page_id e) (error_note err)
            \<and> snd (sync_event sv ?c synced e) = notion_pages_update sv (page_id e) (error_note err)
            \<and> (\<forall>r \<in> set (fst (sync_event sv ?c synced e)). sets_status r \<longrightarrow> \<not> went_through sv r)"
    if "snd (?c e) = Inl err
          \<or> (\<exists>cid. snd (?c e) = Inr cid
                \<and> notion_pages_update sv (page_id e)
                     (updateNotionEvent synced (date_new sv (page_id e)) cid) = Some err)" for err
  proof (cases "?c e")
    case (Pair rs x)
    have rs: "\<forall>r \<in> set rs. \<not> sets_status r"
      using create_requests [OF Pair] by blast
    show ?thesis
    proof (cases x)
      case (Inl e1)
      with that Pair have "e1 = err" by simp
      with Pair Inl rs show ?thesis
        by (simp add: sync_event_def catch_sync_def error_note_status)
    next
      case (Inr cid)
      with that Pair have
        u: "notion_pages_update sv (page_id e)
              (updateNotionEvent synced (date_new sv (page_id e)) cid) = Some err"
        by simp
      with Pair Inr rs show ?thesis
        by (auto simp add: sync_event_def catch_sync_def error_note_status Let_def went_through_def)
    qed
  qed
  have c: "snd (sync_event sv ?c synced e) = None \<longrightarrow>
        sync_loop sv ?c synced (e # es) =
          (fst (sync_event sv ?c synced e) @ fst (sync_loop sv ?c synced es),
           snd (sync_loop sv ?c synced es))"
    by (cases "sync_event sv ?c synced e") (simp split: prod.splits)
  have d: "snd (sync_event sv ?c synced e) = Some err \<longrightarrow>
        sync_loop sv ?c synced (e # es) = (fst (sync_event sv ?c synced e), Some err)" for err
    by (cases "sync_event sv ?c synced e") simp
  from a b c d show ?thesis by blast
qed

theorem sync_failure_keeps_status_witness:
  "sync_loop quiet (createCalendarEvent utc quiet) ''Synced to calendar on '' [blank] =
     ([pages_update ''p1''
         [(''Notes'', Rich_Text (Some ''Error syncing: Date & Time is required''))]], None)"
  using sync_failure_keeps_status [of blank utc quiet "''Synced to calendar on ''" "[]"]
  by (simp add: blank_def quiet_def present_def start_of_def sync_event_def catch_sync_def
      error_note_def)

text \<open>
  C6 as stated has the loop continue after any failure of a record. With a Notion that
  refuses updates, the first approved page (no start value) gets its error note
  requested, the refusal ends the run, and nothing is requested for the second page.
\<close>

theorem error_note_failure_counterexample:
  "present (start_of (Date_Time blank)) = None
   \<and> notion_query_approved down = Inr [blank, date_only]
   \<and> main_sync_calendar utc down =
       ([pages_update ''p1'' [(''Notes'', Rich_Text (Some ''Error syncing: Date & Time is required''))]],
        Some (Error ''fetch failed''))"
  by (simp add: main_sync_calendar_def main_sync_def down_def quiet_def blank_def sync_event_def
      catch_sync_def createCalendarEvent_def createCalendarEvent_body_def present_def start_of_def
      error_note_def Let_def)

text \<open>
  What \<open>createCalendarEvent\<close> of \<^verbatim>\<open>sync-calendar.js\<close> derives, branch by branch: a start
  with a \<open>T\<close> gives a timed event with the start verbatim and the end value or, without
  one, the start; a start without a \<open>T\<close> and an end value gives an all-day event that
  ends on the date part of the end value; a start that is a calendar date, without an end
  value, gives an all-day event that ends on the following day, on a host that is steady
  at the UTC midnight of the start.
\<close>

lemma timed_event_verbatim:
  assumes "present (start_of (Date_Time p)) = Some s" "CHR ''T'' \<in> set s"
  shows "createCalendarEvent_body h p =
     Inr \<lparr>summary = or_default (first_plain_text (Event_Name p)) ''Untitled Event'',
          description = or_default (first_plain_text (Description p)) [],
          location = or_default (first_plain_text (Location p)) [],
          event_start = \<lparr>dateTime = Some s, timeZone = Some ''America/Los_Angeles'', date = None\<rparr>,
          event_end = \<lparr>dateTime = Some (case present (end_of (Date_Time p)) of
                                            None \<Rightarrow> s | Some e \<Rightarrow> e),
                        timeZone = Some ''America/Los_Angeles'', date = None\<rparr>\<rparr>"
  using assms
  by (simp add: createCalendarEvent_body_def Let_def includes_char timed_def time_zone_def
      or_default_def present_def split: option.splits)

lemma all_day_with_end:
  assumes "present (start_of (Date_Time p)) = Some s" "CHR ''T'' \<notin> set s"
    "present (end_of (Date_Time p)) = Some e"
  shows "createCalendarEvent_body h p =
     Inr \<lparr>summary = or_default (first_plain_text (Event_Name p)) ''Untitled Event'',
          description = or_default (first_plain_text (Description p)) [],
          location = or_default (first_plain_text (Location p)) [],
          event_start = \<lparr>dateTime = None, timeZone = None, date = Some s\<rparr>,
          event_end = \<lparr>dateTime = None, timeZone = None, date = Some (split_T_0 e)\<rparr>\<rparr>"
  using assms
  by (simp add: createCalendarEvent_body_def Let_def includes_char all_day_def split_T_0_all)

lemma all_day_single_on_utc:
  "createCalendarEvent_body utc date_only =
     Inr \<lparr>summary = ''Untitled Event'', description = [], location = [],
          event_start = \<lparr>dateTime = None, timeZone = None, date = Some ''2024-06-01''\<rparr>,
          event_end = \<lparr>dateTime = None, timeZone = None, date = Some ''2024-06-02''\<rparr>\<rparr>"
  by code_simp

text \<open>
  C4 at a failing input. On a host in America/Los_Angeles, the all-day page that starts
  on 2024-03-10 and has no end gets the end date 2024-03-10, not 2024-03-11:
  \<^verbatim>\<open>setDate(getDate() + 1)\<close> adds a local day, which has 23 hours there, and
  \<^verbatim>\<open>toISOString()\<close> reads the result in UTC, at 23:00 of the same day.
\<close>

theorem all_day_end_on_spring_forward:
  "createCalendarEvent_body los_angeles spring_forward =
     Inr \<lparr>summary = ''Untitled Event'', description = [], location = [],
          event_start = \<lparr>dateTime = None, timeZone = None, date = Some ''2024-03-10''\<rparr>,
          event_end = \<lparr>dateTime = None, timeZone = None, date = Some ''2024-03-10''\<rparr>\<rparr>"
  by code_simp

end
